theory Spec2Isabelle
  imports Main "HOL-Library.Sublist"
begin

section \<open>JavaScript strings and values\<close>

text \<open>
  A JavaScript string is a sequence of UTF-16 code units; it is modelled as a list of
  natural numbers, one per code unit. \<open>str\<close> embeds a literal written with
  characters below 256; the other characters of the source (box-drawing dashes, check
  marks, the lobster) are written as their code units.
\<close>

type_synonym jsstring = "nat list"

definition str :: "string \<Rightarrow> jsstring" where
  "str s = map of_char s"

definition nl :: jsstring where
  "nl = [10]"

definition backslash :: jsstring where
  "backslash = [92]"

definition dashes :: jsstring where
  "dashes = [0x2500, 0x2500, 0x2500]"

definition check_mark :: jsstring where
  "check_mark = [0x2705]"

definition warning_sign :: jsstring where
  "warning_sign = [0x26A0, 0xFE0F]"

definition em_dash :: jsstring where
  "em_dash = [0x2014]"

definition lobster :: jsstring where
  "lobster = [0xD83E, 0xDD9E]"

text \<open>\<open>Array.prototype.join\<close> on an array of strings.\<close>

fun join :: "jsstring \<Rightarrow> jsstring list \<Rightarrow> jsstring" where
  "join sep [] = []"
| "join sep [x] = x"
| "join sep (x # y # ys) = x @ sep @ join sep (y # ys)"

text \<open>\<open>String.prototype.includes\<close>: the second string occurs in the first.\<close>

fun includes_str :: "jsstring \<Rightarrow> jsstring \<Rightarrow> bool" where
  "includes_str [] t = (t = [])"
| "includes_str (c # s) t = (prefix t (c # s) \<or> includes_str s t)"

text \<open>
  The values a handler can see: the JSON values of a parsed request body, \<open>undefined\<close>
  (a missing property), \<open>NaN\<close> (from arithmetic) and the built-in methods an array
  inherits. Numbers are modelled as mathematical integers, which is exact for the doubles
  of magnitude below \<open>2^53\<close> that have no fraction; \<open>-0\<close> is identified with \<open>0\<close>
  (both are falsy, both are \<open>=== 0\<close>, both print as \<open>0\<close>). An object is the list of
  its own properties, each key once.
\<close>

datatype jsval =
    JUndefined
  | JNull
  | JBool bool
  | JNum int
  | JNaN
  | JStr jsstring
  | JArr "jsval list"
  | JObj "(jsstring \<times> jsval) list"
  | JFun jsstring

datatype exn = TypeError

text \<open>Sequencing of computations that may throw.\<close>

definition bindE :: "exn + 'a \<Rightarrow> ('a \<Rightarrow> exn + 'b) \<Rightarrow> exn + 'b" where
  "bindE m f = (case m of Inl e \<Rightarrow> Inl e | Inr x \<Rightarrow> f x)"

text \<open>\<open>try { return e } catch { return d }\<close>\<close>

definition try_catch :: "exn + 'a \<Rightarrow> 'a \<Rightarrow> exn + 'a" where
  "try_catch m d = (case m of Inl e \<Rightarrow> Inr d | Inr x \<Rightarrow> Inr x)"

text \<open>\<open>ToBoolean\<close>\<close>

fun truthy :: "jsval \<Rightarrow> bool" where
  "truthy JUndefined = False"
| "truthy JNull = False"
| "truthy (JBool b) = b"
| "truthy (JNum n) = (n \<noteq> 0)"
| "truthy JNaN = False"
| "truthy (JStr s) = (s \<noteq> [])"
| "truthy (JArr xs) = True"
| "truthy (JObj kvs) = True"
| "truthy (JFun f) = True"

fun nullish :: "jsval \<Rightarrow> bool" where
  "nullish JUndefined = True"
| "nullish JNull = True"
| "nullish v = False"

text \<open>
  Reading property \<open>k\<close> of a value that is neither \<open>undefined\<close> nor \<open>null\<close>, for
  the property names this program reads. An object yields its own property; of these
  names an array inherits \<open>entries\<close> and \<open>every\<close> from \<open>Array.prototype\<close>; strings,
  numbers, booleans and functions have none of them.
\<close>

fun read_prop :: "jsval \<Rightarrow> jsstring \<Rightarrow> jsval" where
  "read_prop (JObj kvs) k = (case map_of kvs k of Some v \<Rightarrow> v | None \<Rightarrow> JUndefined)"
| "read_prop (JArr xs) k = (if k = str ''entries'' \<or> k = str ''every'' then JFun k else JUndefined)"
| "read_prop v k = JUndefined"

text \<open>\<open>v.k\<close> throws on \<open>undefined\<close> and \<open>null\<close>; \<open>v?.k\<close> yields \<open>undefined\<close> there.\<close>

definition get :: "jsval \<Rightarrow> jsstring \<Rightarrow> exn + jsval" where
  "get v k = (if nullish v then Inl TypeError else Inr (read_prop v k))"

definition opt_get :: "jsval \<Rightarrow> jsstring \<Rightarrow> jsval" where
  "opt_get v k = (if nullish v then JUndefined else read_prop v k)"

text \<open>\<open>d.k0?.k1?. ... ?.kn\<close>: a plain read followed by optional reads.\<close>

fun path :: "jsval \<Rightarrow> jsstring list \<Rightarrow> exn + jsval" where
  "path d [] = Inr d"
| "path d (k # ks) = bindE (get d k) (\<lambda>v. Inr (foldl opt_get v ks))"

text \<open>\<open>v || ''\<close>\<close>

definition or_empty :: "jsval \<Rightarrow> jsval" where
  "or_empty v = (if truthy v then v else JStr [])"

subsection \<open>Conversion to string\<close>

function digits :: "nat \<Rightarrow> jsstring" where
  "digits n = (if n < 10 then [48 + n] else digits (n div 10) @ [48 + n mod 10])"
  by pat_completeness auto
termination
  by (relation "measure (\<lambda>n. n)") auto

definition show_int :: "int \<Rightarrow> jsstring" where
  "show_int i = (if i < 0 then str ''-'' @ digits (nat (- i)) else digits (nat i))"

text \<open>
  \<open>ToString\<close>. An array is joined with commas, \<open>undefined\<close> and \<open>null\<close> elements
  printing as nothing. A parsed JSON object prints as \<open>[object Object]\<close> unless it has an
  own property \<open>toString\<close>: that property is not callable, \<open>valueOf\<close> yields no
  primitive, and the conversion throws a TypeError.
\<close>

fun to_string :: "jsval \<Rightarrow> exn + jsstring"
  and to_string_elems :: "jsval list \<Rightarrow> exn + jsstring list" where
  "to_string JUndefined = Inr (str ''undefined'')"
| "to_string JNull = Inr (str ''null'')"
| "to_string (JBool b) = Inr (if b then str ''true'' else str ''false'')"
| "to_string (JNum n) = Inr (show_int n)"
| "to_string JNaN = Inr (str ''NaN'')"
| "to_string (JStr s) = Inr s"
| "to_string (JArr xs) = bindE (to_string_elems xs) (\<lambda>ss. Inr (join (str '','') ss))"
| "to_string (JObj kvs) =
     (if str ''toString'' \<in> fst ` set kvs then Inl TypeError else Inr (str ''[object Object]''))"
| "to_string (JFun f) = Inr (str ''function '' @ f @ str ''() { [native code] }'')"
| "to_string_elems [] = Inr []"
| "to_string_elems (x # xs) =
     bindE (if nullish x then Inr [] else to_string x)
       (\<lambda>s. bindE (to_string_elems xs) (\<lambda>ss. Inr (s # ss)))"

text \<open>
  \<open>a + b\<close>: both operands are made primitive (an array or object through its string
  form); if either is then a string the result is the concatenation, otherwise the sum
  of the numbers.
\<close>

fun to_primitive :: "jsval \<Rightarrow> exn + jsval" where
  "to_primitive (JArr xs) = bindE (to_string (JArr xs)) (\<lambda>s. Inr (JStr s))"
| "to_primitive (JObj kvs) = bindE (to_string (JObj kvs)) (\<lambda>s. Inr (JStr s))"
| "to_primitive (JFun f) = bindE (to_string (JFun f)) (\<lambda>s. Inr (JStr s))"
| "to_primitive v = Inr v"

fun is_string :: "jsval \<Rightarrow> bool" where
  "is_string (JStr s) = True"
| "is_string v = False"

fun to_number :: "jsval \<Rightarrow> int option" where
  "to_number JNull = Some 0"
| "to_number (JBool b) = Some (if b then 1 else 0)"
| "to_number (JNum n) = Some n"
| "to_number v = None"

definition js_add :: "jsval \<Rightarrow> jsval \<Rightarrow> exn + jsval" where
  "js_add a b =
     bindE (to_primitive a) (\<lambda>pa.
     bindE (to_primitive b) (\<lambda>pb.
       if is_string pa \<or> is_string pb
       then bindE (to_string pa) (\<lambda>sa. bindE (to_string pb) (\<lambda>sb. Inr (JStr (sa @ sb))))
       else (case (to_number pa, to_number pb) of
               (Some x, Some y) \<Rightarrow> Inr (JNum (x + y))
             | _ \<Rightarrow> Inr JNaN)))"

section \<open>Regular expressions\<close>

text \<open>
  The regular expression literals of the catalog use literal characters, \<open>.\<close>,
  \<open>\d\<close>, alternation, \<open>*\<close> and \<open>+\<close>. A term of \<open>rx\<close> is matched by taking
  derivatives: \<open>deriv c r\<close> matches what \<open>r\<close> matches after a leading \<open>c\<close>.
\<close>

datatype rx =
    Zero
  | Eps
  | Sym "nat \<Rightarrow> bool"
  | Alt rx rx
  | Seq rx rx
  | Star rx

fun nullable :: "rx \<Rightarrow> bool" where
  "nullable Zero = False"
| "nullable Eps = True"
| "nullable (Sym p) = False"
| "nullable (Alt r s) = (nullable r \<or> nullable s)"
| "nullable (Seq r s) = (nullable r \<and> nullable s)"
| "nullable (Star r) = True"

fun deriv :: "nat \<Rightarrow> rx \<Rightarrow> rx" where
  "deriv c Zero = Zero"
| "deriv c Eps = Zero"
| "deriv c (Sym p) = (if p c then Eps else Zero)"
| "deriv c (Alt r s) = Alt (deriv c r) (deriv c s)"
| "deriv c (Seq r s) =
     (if nullable r then Alt (Seq (deriv c r) s) (deriv c s) else Seq (deriv c r) s)"
| "deriv c (Star r) = Seq (deriv c r) (Star r)"

text \<open>The whole string matches.\<close>

fun matches :: "rx \<Rightarrow> jsstring \<Rightarrow> bool" where
  "matches r [] = nullable r"
| "matches r (c # cs) = matches (deriv c r) cs"

text \<open>
  What a term of \<open>rx\<close> stands for: the set of strings it matches as a whole. The
  matcher is shown to decide membership in this set further down.
\<close>

inductive_set star :: "jsstring set \<Rightarrow> jsstring set" for A :: "jsstring set" where
  empty: "[] \<in> star A"
| more: "u \<in> A \<Longrightarrow> v \<in> star A \<Longrightarrow> u @ v \<in> star A"

fun lang :: "rx \<Rightarrow> jsstring set" where
  "lang Zero = {}"
| "lang Eps = {[]}"
| "lang (Sym p) = {[c] | c. p c}"
| "lang (Alt r s) = lang r \<union> lang s"
| "lang (Seq r s) = {u @ v | u v. u \<in> lang r \<and> v \<in> lang s}"
| "lang (Star r) = star (lang r)"

definition any_unit :: rx where
  "any_unit = Sym (\<lambda>u. True)"

text \<open>Some substring matches: what an unanchored pattern asks of its subject.\<close>

definition search :: "rx \<Rightarrow> jsstring \<Rightarrow> bool" where
  "search r s = matches (Seq (Star any_unit) (Seq r (Star any_unit))) s"

text \<open>
  \<open>.\<close> matches any code unit but the line terminators. Under the \<open>i\<close> flag (without
  \<open>u\<close>) two code units match when they have the same upper case, and a code unit of 128
  or more never matches one below 128: for the ASCII patterns of the catalog that is
  equality up to the case of ASCII letters.
\<close>

definition dot :: rx where
  "dot = Sym (\<lambda>u. u \<noteq> 10 \<and> u \<noteq> 13 \<and> u \<noteq> 0x2028 \<and> u \<noteq> 0x2029)"

definition digit :: rx where
  "digit = Sym (\<lambda>u. 48 \<le> u \<and> u \<le> 57)"

definition fold_case :: "nat \<Rightarrow> nat" where
  "fold_case u = (if 97 \<le> u \<and> u \<le> 122 then u - 32 else u)"

definition lit :: "string \<Rightarrow> rx" where
  "lit s = foldr (\<lambda>c r. Seq (Sym (\<lambda>u. u = of_char c)) r) s Eps"

definition lit_i :: "string \<Rightarrow> rx" where
  "lit_i s = foldr (\<lambda>c r. Seq (Sym (\<lambda>u. fold_case u = fold_case (of_char c))) r) s Eps"

definition seqs :: "rx list \<Rightarrow> rx" where
  "seqs rs = foldr Seq rs Eps"

text \<open>
  \<open>RegExp.prototype.test\<close> converts its argument to a string first, which may throw.
  \<open>regex_test\<close> is for a pattern without anchors, \<open>regex_test_anchored\<close> for a pattern of
  the form \<open>^...$\<close> (no \<open>m\<close> flag: the whole string).
\<close>

definition regex_test :: "rx \<Rightarrow> jsval \<Rightarrow> exn + bool" where
  "regex_test r v = bindE (to_string v) (\<lambda>s. Inr (search r s))"

definition regex_test_anchored :: "rx \<Rightarrow> jsval \<Rightarrow> exn + bool" where
  "regex_test_anchored r v = bindE (to_string v) (\<lambda>s. Inr (matches r s))"

subsection \<open>parseInt\<close>

definition is_space :: "nat \<Rightarrow> bool" where
  "is_space u = (u \<in> {9, 10, 11, 12, 13, 32, 0xA0, 0x1680, 0x2028, 0x2029, 0x202F, 0x205F, 0x3000, 0xFEFF}
     \<or> (0x2000 \<le> u \<and> u \<le> 0x200A))"

definition digit_value :: "nat \<Rightarrow> nat option" where
  "digit_value u =
     (if 48 \<le> u \<and> u \<le> 57 then Some (u - 48)
      else if 97 \<le> u \<and> u \<le> 122 then Some (u - 87)
      else if 65 \<le> u \<and> u \<le> 90 then Some (u - 55)
      else None)"

definition is_digit_in :: "nat \<Rightarrow> nat \<Rightarrow> bool" where
  "is_digit_in radix u = (case digit_value u of Some v \<Rightarrow> v < radix | None \<Rightarrow> False)"

definition number_in :: "nat \<Rightarrow> jsstring \<Rightarrow> nat" where
  "number_in radix ds =
     foldl (\<lambda>acc u. case digit_value u of Some v \<Rightarrow> acc * radix + v | None \<Rightarrow> acc) 0 ds"

text \<open>
  \<open>parseInt(v)\<close> with no radix: leading white space is dropped, then a sign, then a
  \<open>0x\<close> prefix selects base 16; the longest run of digits is the value, and no digit at
  all gives \<open>NaN\<close>.
\<close>

definition parseInt :: "jsval \<Rightarrow> exn + jsval" where
  "parseInt v =
     bindE (to_string v) (\<lambda>s0.
       let s1 = dropWhile is_space s0;
           negative = (s1 \<noteq> [] \<and> hd s1 = 45);
           s2 = (if s1 \<noteq> [] \<and> (hd s1 = 43 \<or> hd s1 = 45) then tl s1 else s1);
           hex = (prefix (str ''0x'') s2 \<or> prefix (str ''0X'') s2);
           radix = (if hex then 16 else 10);
           s3 = (if hex then drop 2 s2 else s2);
           z = takeWhile (is_digit_in radix) s3
       in Inr (if z = [] then JNaN
               else JNum (if negative then - int (number_in radix z) else int (number_in radix z))))"

text \<open>\<open>a < 30\<close> for the number that \<open>parseInt\<close> returned.\<close>

fun less_than :: "jsval \<Rightarrow> int \<Rightarrow> bool" where
  "less_than (JNum n) m = (n < m)"
| "less_than v m = False"

section \<open>The issue catalog (known-issues.js)\<close>

datatype severity = Critical | High | Medium | Low

text \<open>
  A detection result is \<open>{id, severity, title, description, fix}\<close>; a catalog entry
  has a \<open>detect\<close> predicate besides; the summary view of the response lacks the fix.
  A predicate returns the truth value of what the JavaScript function returns (the
  filter that calls it looks at nothing else), or the exception it throws.
\<close>

record issue_summary =
  issue_id :: jsstring
  severity :: severity
  title :: jsstring
  description :: jsstring

record detection_result = issue_summary +
  fix_body :: jsstring

record issue = detection_result +
  detect :: "jsval \<Rightarrow> exn + bool"

definition apostrophe :: jsstring where
  "apostrophe = [39]"

subsection \<open>Detection predicates\<close>

definition detect_mem0_graph_free :: "jsval \<Rightarrow> exn + bool" where
  "detect_mem0_graph_free diag =
     try_catch
       (bindE (path diag [str ''config'', str ''plugins'', str ''entries'', str ''openclaw-mem0'',
                          str ''config'', str ''enableGraph''])
          (\<lambda>v. Inr (v = JBool True)))
       False"

definition re_gateway_not_running :: rx where
  "re_gateway_not_running =
     Alt (lit_i ''not running'') (Alt (lit_i ''error'') (Alt (lit_i ''failed'') (lit_i ''stopped'')))"

definition detect_gateway_not_running :: "jsval \<Rightarrow> exn + bool" where
  "detect_gateway_not_running diag =
     bindE (path diag [str ''openclaw'', str ''gatewayStatus'']) (\<lambda>v.
       let status = or_empty v in
       bindE (regex_test re_gateway_not_running status) (\<lambda>t.
         if t then bindE (path diag [str ''openclaw'', str ''gatewayPid'']) (\<lambda>pid. Inr (\<not> truthy pid))
         else Inr False))"

definition re_port_conflict :: rx where
  "re_port_conflict = lit_i ''EADDRINUSE''"

definition detect_port_conflict :: "jsval \<Rightarrow> exn + bool" where
  "detect_port_conflict diag =
     bindE (path diag [str ''logs'', str ''errors'']) (\<lambda>v.
       let logs = or_empty v in regex_test re_port_conflict logs)"

definition re_browser_port_binding :: rx where
  "re_browser_port_binding =
     Alt (seqs [lit_i ''18791'', Star dot, lit_i ''EADDRINUSE''])
      (Alt (seqs [lit_i ''browser'', Star dot, lit_i ''control'', Star dot, lit_i ''fail''])
           (seqs [lit_i ''browser'', Star dot, lit_i ''service'', Star dot, lit_i ''start'']))"

definition detect_browser_port_binding :: "jsval \<Rightarrow> exn + bool" where
  "detect_browser_port_binding diag =
     bindE (path diag [str ''logs'', str ''errors'']) (\<lambda>v.
       let logs = or_empty v in regex_test re_browser_port_binding logs)"

definition detect_no_hybrid_search :: "jsval \<Rightarrow> exn + bool" where
  "detect_no_hybrid_search diag =
     try_catch
       (bindE (path diag [str ''config'', str ''agents'', str ''defaults'', str ''memorySearch'',
                          str ''query'', str ''hybrid'', str ''enabled''])
          (\<lambda>v. Inr (\<not> truthy v)))
       True"

definition detect_no_context_pruning :: "jsval \<Rightarrow> exn + bool" where
  "detect_no_context_pruning diag =
     try_catch
       (bindE (path diag [str ''config'', str ''agents'', str ''defaults'', str ''contextPruning''])
          (\<lambda>v. Inr (\<not> truthy v)))
       True"

definition detect_no_memory_flush :: "jsval \<Rightarrow> exn + bool" where
  "detect_no_memory_flush diag =
     try_catch
       (bindE (path diag [str ''config'', str ''agents'', str ''defaults'', str ''compaction'',
                          str ''memoryFlush'', str ''enabled''])
          (\<lambda>v. Inr (\<not> truthy v)))
       True"

definition detect_no_soul :: "jsval \<Rightarrow> exn + bool" where
  "detect_no_soul diag =
     bindE (path diag [str ''workspace'', str ''hasSoul'']) (\<lambda>v. Inr (\<not> truthy v))"

definition detect_no_memory_files :: "jsval \<Rightarrow> exn + bool" where
  "detect_no_memory_files diag =
     bindE (path diag [str ''workspace'', str ''memoryFiles'']) (\<lambda>v. Inr (v = JNum 0))"

definition re_ggml_metal_crash :: rx where
  "re_ggml_metal_crash =
     Alt (seqs [lit_i ''GGML_ASSERT'', Star dot, lit_i ''ggml-metal''])
         (seqs [lit_i ''ggml-metal'', Star dot, lit_i ''ASSERT''])"

definition detect_ggml_metal_crash :: "jsval \<Rightarrow> exn + bool" where
  "detect_ggml_metal_crash diag =
     bindE (path diag [str ''logs'', str ''errors'']) (\<lambda>v.
       let logs = or_empty v in
       bindE (path diag [str ''logs'', str ''stderr'']) (\<lambda>w.
         let stderr = or_empty w in
         bindE (js_add logs stderr) (\<lambda>both. regex_test re_ggml_metal_crash both)))"

definition re_orphan_tool_calls :: rx where
  "re_orphan_tool_calls =
     Alt (seqs [lit_i ''tool_call_id'', Star dot, lit_i ''not found''])
         (seqs [lit_i ''orphan'', Star dot, lit_i ''tool''])"

definition detect_orphan_tool_calls :: "jsval \<Rightarrow> exn + bool" where
  "detect_orphan_tool_calls diag =
     bindE (path diag [str ''logs'', str ''errors'']) (\<lambda>v.
       let logs = or_empty v in regex_test re_orphan_tool_calls logs)"

text \<open>\<open>/^\d+m$/\<close>, anchored at both ends.\<close>

definition re_heartbeat_minutes :: rx where
  "re_heartbeat_minutes = seqs [digit, Star digit, lit ''m'']"

definition detect_high_token_usage :: "jsval \<Rightarrow> exn + bool" where
  "detect_high_token_usage diag =
     try_catch
       (bindE (path diag [str ''config'', str ''agents'', str ''defaults'', str ''heartbeat'']) (\<lambda>heartbeat.
        bindE (path diag [str ''config'', str ''agents'', str ''defaults'', str ''contextPruning'']) (\<lambda>pruning.
          if truthy pruning then Inr False
          else if \<not> truthy (opt_get heartbeat (str ''every'')) then Inr False
          else
            bindE (get heartbeat (str ''every'')) (\<lambda>every1.
            bindE (regex_test_anchored re_heartbeat_minutes every1) (\<lambda>t.
              if \<not> t then Inr False
              else
                bindE (get heartbeat (str ''every'')) (\<lambda>every2.
                bindE (parseInt every2) (\<lambda>n. Inr (less_than n 30))))))))
       False"

subsection \<open>The entries\<close>

definition mem0_graph_free :: issue where
  \<open>mem0_graph_free =
     \<lparr>issue_id = str ''mem0-graph-free'',
      severity = Critical,
      title = str ''Mem0 enableGraph on Free plan'',
      description =
        str ''Mem0 plugin has enableGraph: true but this requires the Pro plan ($99/mo). Every autoCapture and autoRecall call silently fails, meaning zero memories are stored.'',
      fix_body =
        join nl
          [str ''# Fix: Disable Mem0 graph (requires Pro plan)'',
           str ''jq '.plugins.entries["openclaw-mem0"].config.enableGraph = false' '' @ backslash,
           str ''  ~/.openclaw/openclaw.json > /tmp/oc-fix.json && '' @ backslash,
           str ''  mv /tmp/oc-fix.json ~/.openclaw/openclaw.json'',
           str ''echo "'' @ check_mark @ str '' Mem0 graph disabled '' @ em_dash @ str '' autoCapture will now work on Free plan"''],
      detect = detect_mem0_graph_free\<rparr>\<close>

definition gateway_not_running :: issue where
  \<open>gateway_not_running =
     \<lparr>issue_id = str ''gateway-not-running'',
      severity = Critical,
      title = str ''Gateway is not running'',
      description =
        str ''The OpenClaw gateway process is not running. This could be due to a config error, port conflict, or crash.'',
      fix_body =
        join nl
          [str ''# Fix: Restart the gateway'',
           str ''openclaw gateway restart'',
           str ''# If that fails, check logs:'',
           str ''# cat ~/.openclaw/logs/gateway.err.log | tail -20''],
      detect = detect_gateway_not_running\<rparr>\<close>

definition port_conflict :: issue where
  \<open>port_conflict =
     \<lparr>issue_id = str ''port-conflict'',
      severity = Critical,
      title = str ''Port conflict (EADDRINUSE)'',
      description =
        str ''The gateway port is already in use by another process. This prevents OpenClaw from starting.'',
      fix_body =
        join nl
          [str ''# Fix: Kill the process using the gateway port and restart'',
           str ''PORT=$(jq -r '.gateway.port // 18789' ~/.openclaw/openclaw.json)'',
           str ''PID=$(lsof -ti :$PORT 2>/dev/null)'',
           str ''if [ -n "$PID" ]; then'',
           str ''  echo "Killing process $PID on port $PORT"'',
           str ''  kill $PID'',
           str ''  sleep 1'',
           str ''fi'',
           str ''openclaw gateway restart'',
           str ''echo "'' @ check_mark @ str '' Port conflict resolved"''],
      detect = detect_port_conflict\<rparr>\<close>

definition browser_port_binding :: issue where
  \<open>browser_port_binding =
     \<lparr>issue_id = str ''browser-port-binding'',
      severity = High,
      title = str ''Browser control port not binding (18791)'',
      description =
        str ''The browser control HTTP server on port 18791 won't start. This prevents browser automation from working.'',
      fix_body =
        join nl
          [str ''# Fix: Kill stale browser processes and restart'',
           str ''pkill -f "chrome.*--remote-debugging-port" 2>/dev/null'',
           str ''PID=$(lsof -ti :18791 2>/dev/null)'',
           str ''[ -n "$PID" ] && kill $PID'',
           str ''PID=$(lsof -ti :18800 2>/dev/null)'',
           str ''[ -n "$PID" ] && kill $PID'',
           str ''sleep 1'',
           str ''openclaw gateway restart'',
           str ''echo "'' @ check_mark @ str '' Browser ports cleared"''],
      detect = detect_browser_port_binding\<rparr>\<close>

definition no_hybrid_search :: issue where
  \<open>no_hybrid_search =
     \<lparr>issue_id = str ''no-hybrid-search'',
      severity = Medium,
      title = str ''Hybrid search not enabled'',
      description =
        str ''Your memory search is using basic vector search only. Enabling hybrid search (vector + BM25) significantly improves recall, especially for exact matches like wallet addresses, error codes, and names.'',
      fix_body =
        join nl
          [str ''# Fix: Enable hybrid search with recommended weights'',
           str ''jq '.agents.defaults.memorySearch.query.hybrid = {'',
           str ''  "enabled": true,'',
           str ''  "vectorWeight": 0.6,'',
           str ''  "textWeight": 0.4,'',
           str ''  "temporalDecay": {"enabled": true, "halfLifeDays": 14}'',
           str ''}' ~/.openclaw/openclaw.json > /tmp/oc-fix.json && '' @ backslash,
           str ''  mv /tmp/oc-fix.json ~/.openclaw/openclaw.json'',
           str ''echo "'' @ check_mark @ str '' Hybrid search enabled (vector 0.6 + BM25 0.4 + temporal decay)"''],
      detect = detect_no_hybrid_search\<rparr>\<close>

definition no_context_pruning :: issue where
  \<open>no_context_pruning =
     \<lparr>issue_id = str ''no-context-pruning'',
      severity = Medium,
      title = str ''No context pruning configured'',
      description =
        str ''Without context pruning, old messages pile up and waste your context window. This makes conversations more expensive and can cause compactions to happen more often.'',
      fix_body =
        join nl
          [str ''# Fix: Enable context pruning (cache-ttl mode, 6 hour TTL)'',
           str ''jq '.agents.defaults.contextPruning = {'',
           str ''  "mode": "cache-ttl",'',
           str ''  "ttl": "6h",'',
           str ''  "keepLastAssistants": 3'',
           str ''}' ~/.openclaw/openclaw.json > /tmp/oc-fix.json && '' @ backslash,
           str ''  mv /tmp/oc-fix.json ~/.openclaw/openclaw.json'',
           str ''echo "'' @ check_mark @ str '' Context pruning enabled (6h TTL, keeps last 3 assistant messages)"''],
      detect = detect_no_context_pruning\<rparr>\<close>

definition no_memory_flush :: issue where
  \<open>no_memory_flush =
     \<lparr>issue_id = str ''no-memory-flush'',
      severity = High,
      title = str ''Memory flush not enabled'',
      description =
        str ''When your context window fills up and compaction happens, important information will be lost. Memory flush automatically saves a summary before compacting.'',
      fix_body =
        join nl
          [str ''# Fix: Enable memory flush with smart prompt'',
           str ''jq '.agents.defaults.compaction = {'',
           str ''  "mode": "safeguard",'',
           str ''  "reserveTokensFloor": 32000,'',
           str ''  "memoryFlush": {'',
           str ''    "enabled": true,'',
           str ''    "softThresholdTokens": 40000,'',
           str ''    "prompt": "Distill this session to memory/YYYY-MM-DD.md (use today'"'"'s date, APPEND only). Focus on: decisions made, state changes, lessons learned, blockers hit, tasks completed/started. Include specific details (IDs, URLs, amounts, error messages). If nothing worth saving, reply NO_REPLY."'',
           str ''  }'',
           str ''}' ~/.openclaw/openclaw.json > /tmp/oc-fix.json && '' @ backslash,
           str ''  mv /tmp/oc-fix.json ~/.openclaw/openclaw.json'',
           str ''echo "'' @ check_mark @ str '' Memory flush enabled '' @ em_dash @ str '' context compaction will save summaries"''],
      detect = detect_no_memory_flush\<rparr>\<close>

definition no_soul :: issue where
  \<open>no_soul =
     \<lparr>issue_id = str ''no-soul'',
      severity = Low,
      title = str ''No SOUL.md found'',
      description =
        str ''SOUL.md defines your agent's personality and behavior. Without it, your agent is generic and lacks character.'',
      fix_body =
        join nl
          [str ''# Fix: Create a basic SOUL.md'',
           str ''WORKSPACE=$(jq -r '.agents.defaults.workspace // "~/.openclaw/workspace"' ~/.openclaw/openclaw.json)'',
           str ''cat > "$WORKSPACE/SOUL.md" << 'SOUL'' @ apostrophe,
           str ''# SOUL.md '' @ em_dash @ str '' Who You Are'',
           [],
           str ''You are a helpful AI assistant. Be concise, direct, and genuinely useful.'',
           str ''Have opinions. Be resourceful. Earn trust through competence.'',
           [],
           str ''Customize this file to give your agent personality!'',
           str ''SOUL'',
           str ''echo "'' @ check_mark @ str '' Created basic SOUL.md at $WORKSPACE/SOUL.md"''],
      detect = detect_no_soul\<rparr>\<close>

definition no_memory_files :: issue where
  \<open>no_memory_files =
     \<lparr>issue_id = str ''no-memory-files'',
      severity = Low,
      title = str ''No memory files found'',
      description =
        str ''Your agent has no memory directory or daily note files. This means it can't persist knowledge across sessions.'',
      fix_body =
        join nl
          [str ''# Fix: Create memory directory'',
           str ''WORKSPACE=$(jq -r '.agents.defaults.workspace // "~/.openclaw/workspace"' ~/.openclaw/openclaw.json)'',
           str ''mkdir -p "$WORKSPACE/memory"'',
           str ''echo "# Memory" > "$WORKSPACE/MEMORY.md"'',
           str ''echo "'' @ check_mark @ str '' Created memory directory at $WORKSPACE/memory/"''],
      detect = detect_no_memory_files\<rparr>\<close>

definition ggml_metal_crash :: issue where
  \<open>ggml_metal_crash =
     \<lparr>issue_id = str ''ggml-metal-crash'',
      severity = High,
      title = str ''GGML Metal GPU crash (macOS)'',
      description =
        str ''QMD or other GGML-based tools crash with GGML_ASSERT on macOS with Apple Silicon. This is a known Metal GPU bug. Fix: use CPU mode.'',
      fix_body =
        join nl
          [str ''# Fix: Disable Metal GPU for GGML (use CPU instead)'',
           str ''# Add to ~/.zshrc or ~/.bashrc'',
           str ''echo 'export GGML_NO_METAL=1' >> ~/.zshrc'',
           str ''# Also add to OpenClaw env'',
           str ''jq '.env.GGML_NO_METAL = "1"' ~/.openclaw/openclaw.json > /tmp/oc-fix.json && '' @ backslash,
           str ''  mv /tmp/oc-fix.json ~/.openclaw/openclaw.json'',
           str ''echo "'' @ check_mark @ str '' GGML Metal disabled '' @ em_dash @ str '' CPU mode active (fixes QMD crashes)"''],
      detect = detect_ggml_metal_crash\<rparr>\<close>

definition orphan_tool_calls :: issue where
  \<open>orphan_tool_calls =
     \<lparr>issue_id = str ''orphan-tool-calls'',
      severity = Medium,
      title = str ''Orphan tool_calls in session history'',
      description =
        str ''Session JSONL files contain tool_call entries without matching tool_result entries. This causes "tool_call_id is not found" errors. Known OpenClaw bug #11187.'',
      fix_body =
        join nl
          [str ''# Fix: This is a known OpenClaw bug (#11187).'',
           str ''# Workaround: clear the affected session file'',
           str ''# Find session files with orphan tool calls:'',
           str ''find ~/.openclaw/sessions -name "*.jsonl" -exec grep -l "tool_call" {} '' @ backslash @ str ''; 2>/dev/null | while read f; do'',
           str ''  echo "Checking: $f"'',
           str ''done'',
           str ''echo "'' @ warning_sign @ str ''  If issues persist, try: openclaw gateway restart"'',
           str ''echo "This bug is tracked at: https://github.com/openclaw/openclaw/issues/11187"''],
      detect = detect_orphan_tool_calls\<rparr>\<close>

definition high_token_usage :: issue where
  \<open>high_token_usage =
     \<lparr>issue_id = str ''high-token-usage'',
      severity = Medium,
      title = str ''High token consumption detected'',
      description =
        str ''Your configuration may be causing excessive token usage. Common causes: no context pruning, large workspace files being loaded every turn, or aggressive heartbeat intervals.'',
      fix_body =
        join nl
          [str ''# Fix: Reduce token usage'',
           str ''# 1. Enable context pruning (see fix above)'',
           str ''# 2. Increase heartbeat interval to 30+ minutes'',
           str ''jq '.agents.defaults.heartbeat.every = "30m"' ~/.openclaw/openclaw.json > /tmp/oc-fix.json && '' @ backslash,
           str ''  mv /tmp/oc-fix.json ~/.openclaw/openclaw.json'',
           str ''# 3. Use a cheaper model for heartbeats'',
           str ''jq '.agents.defaults.heartbeat.model = "anthropic/claude-sonnet-4-6"' ~/.openclaw/openclaw.json > /tmp/oc-fix.json && '' @ backslash,
           str ''  mv /tmp/oc-fix.json ~/.openclaw/openclaw.json'',
           str ''echo "'' @ check_mark @ str '' Token usage optimized (30min heartbeat + Sonnet model)"''],
      detect = detect_high_token_usage\<rparr>\<close>


definition KNOWN_ISSUES :: "issue list" where
  "KNOWN_ISSUES =
     [mem0_graph_free, gateway_not_running, port_conflict, browser_port_binding,
      no_hybrid_search, no_context_pruning, no_memory_flush, no_soul, no_memory_files,
      ggml_metal_crash, orphan_tool_calls, high_token_usage]"

subsection \<open>detectIssues\<close>

text \<open>
  \<open>filter\<close> keeps an entry when its predicate returns a truthy value and drops it when
  the predicate returns a falsy one or throws; \<open>map\<close> then projects each kept entry to
  its detection result. \<open>detect_in\<close> is the same computation over any catalog.
\<close>

definition fires :: "jsval \<Rightarrow> issue \<Rightarrow> bool" where
  "fires diagnostic i = (case detect i diagnostic of Inl e \<Rightarrow> False | Inr b \<Rightarrow> b)"

definition project :: "issue \<Rightarrow> detection_result" where
  "project i =
     \<lparr>issue_id = issue_id i, severity = severity i, title = title i,
      description = description i, fix_body = fix_body i\<rparr>"

definition detect_in :: "issue list \<Rightarrow> jsval \<Rightarrow> detection_result list" where
  "detect_in catalog diagnostic = map project (filter (fires diagnostic) catalog)"

definition detectIssues :: "jsval \<Rightarrow> detection_result list" where
  "detectIssues diagnostic = detect_in KNOWN_ISSUES diagnostic"

section \<open>The diagnose route (routes/diagnose.js)\<close>

subsection \<open>analyzeWithAI\<close>

text \<open>
  What \<open>analyzeWithAI\<close> returns. The degraded record of the \<open>catch\<close> branch has no
  \<open>raw\<close> field.
\<close>

record ai_analysis =
  summary :: jsstring
  insights :: jsstring
  additionalIssues :: "jsval list"
  additionalFixes :: jsstring
  raw :: "jsstring option"

text \<open>\<open>String.prototype.trim\<close>\<close>

definition trim :: "jsstring \<Rightarrow> jsstring" where
  "trim s = rev (dropWhile is_space (rev (dropWhile is_space s)))"

text \<open>
  \<open>extractSection\<close> matches
  \<open>(?:^|\n)(?:#+\s*)?(?:keyword)[:\s]*\n([\s\S]*?)(?=\n#+|$)\<close> with the \<open>i\<close> flag and
  returns the trimmed group, or the empty string when nothing matches. It is called with
  the keywords \<open>summary\<close>, \<open>optimization\<close> and \<open>fix\<close>: words of ASCII letters,
  which is what the model below relies on. A match starts at the start of the text or
  right after a newline (\<open>starts\<close>, leftmost first). There \<open>heading\<close> skips a run of
  \<open>#\<close> with the white space after it (when there is at least one \<open>#\<close>), reads the
  keyword in either case, and goes past the last newline of the following run of colons
  and white space; it fails when that run has no newline. The group then extends to the
  first point followed by a newline and \<open>#\<close>, or to the end (\<open>section_body\<close>).
\<close>

fun starts :: "jsstring \<Rightarrow> jsstring list" where
  "starts [] = []"
| "starts (c # cs) = (if c = 10 then cs # starts cs else starts cs)"

fun after_last_newline :: "jsstring \<Rightarrow> jsstring option" where
  "after_last_newline [] = None"
| "after_last_newline (c # cs) =
     (if c = 58 \<or> is_space c
      then (case after_last_newline cs of
              Some r \<Rightarrow> Some r
            | None \<Rightarrow> if c = 10 then Some cs else None)
      else None)"

definition heading :: "string \<Rightarrow> jsstring \<Rightarrow> jsstring option" where
  "heading keyword s =
     (let s1 = dropWhile (\<lambda>u. u = 35) s;
          s2 = (if s1 \<noteq> s then dropWhile is_space s1 else s);
          n = length keyword
      in if map fold_case (take n s2) = map fold_case (str keyword)
         then after_last_newline (drop n s2)
         else None)"

fun section_body :: "jsstring \<Rightarrow> jsstring" where
  "section_body [] = []"
| "section_body (c # cs) = (if prefix [10, 35] (c # cs) then [] else c # section_body cs)"

definition extractSection :: "jsstring \<Rightarrow> string \<Rightarrow> jsstring" where
  "extractSection text keyword =
     (case List.map_filter (heading keyword) (text # starts text) of
        [] \<Rightarrow> []
      | r # rs \<Rightarrow> trim (section_body r))"

text \<open>
  The provider call is the one external effect of the route. Its outcome is a parameter
  of the model: \<open>Inr\<close> the text of the first content block of the reply, or \<open>Inl\<close> the
  message of the error thrown anywhere before that text is in hand (a provider or network
  error, a timeout reported by the client library, a reply without a text block). The
  prompt is built from the ids of the detected issues and the payload, so the outcome is
  a function of these two.
\<close>

type_synonym provider = "jsval \<Rightarrow> jsstring list \<Rightarrow> jsstring + jsstring"

definition analyzeWithAI :: "provider \<Rightarrow> jsval \<Rightarrow> detection_result list \<Rightarrow> ai_analysis" where
  "analyzeWithAI anthropic diagnostic knownIssues =
     (let knownIds = map issue_id knownIssues in
      case anthropic diagnostic knownIds of
        Inr response \<Rightarrow>
          \<lparr>summary = (let s = extractSection response ''summary''
                       in if s \<noteq> [] then s else take 500 response),
           insights = extractSection response ''optimization'',
           additionalIssues = [],
           additionalFixes = extractSection response ''fix'',
           raw = Some response\<rparr>
      | Inl message \<Rightarrow>
          \<lparr>summary = str ''Pattern matching found '' @ digits (length knownIssues)
                       @ str '' issue(s). AI analysis unavailable ('' @ message @ str '').'',
           insights = [],
           additionalIssues = [],
           additionalFixes = [],
           raw = None\<rparr>)"

subsection \<open>generateFixScript\<close>

fun severity_text :: "severity \<Rightarrow> jsstring" where
  "severity_text Critical = str ''critical''"
| "severity_text High = str ''high''"
| "severity_text Medium = str ''medium''"
| "severity_text Low = str ''low''"

text \<open>The initial value of \<open>lines\<close>; \<open>now\<close> is \<open>new Date().toISOString()\<close>.\<close>

definition initial_lines :: "jsstring \<Rightarrow> jsstring \<Rightarrow> jsstring list" where
  \<open>initial_lines fixId now =
     [str ''#!/usr/bin/env bash'',
      str ''# ClawFix Fix Script '' @ em_dash @ str '' '' @ fixId,
      str ''# Generated: '' @ now,
      str ''# Review each step before running!'',
      str ''#'',
      str ''# Usage: bash fix.sh'',
      [],
      str ''set -euo pipefail'',
      [],
      str ''# Backup current config'',
      str ''if [ -f ~/.openclaw/openclaw.json ]; then'',
      str ''  cp ~/.openclaw/openclaw.json ~/.openclaw/openclaw.json.bak.$(date +%s)'',
      str ''  echo "'' @ check_mark @ str '' Config backed up"'',
      str ''fi'',
      []]\<close>

text \<open>One pass of the loop over \<open>knownIssues\<close>: four pushes.\<close>

definition issue_block :: "detection_result \<Rightarrow> jsstring list" where
  \<open>issue_block issue =
     [str ''# '' @ dashes @ str '' Fix: '' @ title issue @ str '' ('' @ severity_text (severity issue)
        @ str '') '' @ dashes,
      str ''# '' @ description issue,
      fix_body issue,
      []]\<close>

definition push_issue :: "jsstring list \<Rightarrow> detection_result \<Rightarrow> jsstring list" where
  "push_issue lines issue = lines @ issue_block issue"

text \<open>The pushes for the fixes of the AI, for the restart, and at the end.\<close>

definition ai_block :: "jsstring \<Rightarrow> jsstring list" where
  \<open>ai_block fixes_text =
     [str ''# '' @ dashes @ str '' Additional AI-Recommended Fixes '' @ dashes,
      fixes_text,
      []]\<close>

definition restart_block :: "jsstring list" where
  \<open>restart_block =
     [str ''# '' @ dashes @ str '' Restart Gateway to Apply Changes '' @ dashes,
      str ''echo "Restarting OpenClaw gateway..."'',
      str ''openclaw gateway restart 2>/dev/null || echo "'' @ warning_sign
        @ str ''  Could not restart gateway automatically. Run: openclaw gateway restart"'',
      []]\<close>

definition completion_banner :: "jsstring \<Rightarrow> jsstring list" where
  \<open>completion_banner fixId =
     [str ''echo ""'',
      str ''echo "'' @ lobster @ str '' All fixes applied! Run 'openclaw status' to verify."'',
      str ''echo "Fix ID: '' @ fixId @ str ''"'']\<close>

text \<open>\<open>knownIssues.some(i => i.fix.includes('openclaw.json'))\<close>\<close>

definition touches_config :: "detection_result list \<Rightarrow> bool" where
  "touches_config knownIssues =
     list_ex (\<lambda>i. includes_str (fix_body i) (str ''openclaw.json'')) knownIssues"

definition script_lines ::
  "detection_result list \<Rightarrow> ai_analysis \<Rightarrow> jsstring \<Rightarrow> jsstring \<Rightarrow> jsstring list" where
  "script_lines knownIssues aiAnalysis fixId now =
     (let lines0 = initial_lines fixId now;
          lines1 = foldl push_issue lines0 knownIssues;
          lines2 =
            (if additionalFixes aiAnalysis \<noteq> []
             then lines1 @ ai_block (additionalFixes aiAnalysis)
             else lines1);
          lines3 =
            (if touches_config knownIssues
             then lines2 @ restart_block
             else lines2)
      in lines3 @ completion_banner fixId)"

definition generateFixScript ::
  "detection_result list \<Rightarrow> ai_analysis \<Rightarrow> jsstring \<Rightarrow> jsstring \<Rightarrow> jsstring" where
  "generateFixScript knownIssues aiAnalysis fixId now =
     join nl (script_lines knownIssues aiAnalysis fixId now)"

subsection \<open>The result store\<close>

record analysis_result =
  fixId :: jsstring
  timestamp :: jsstring
  issuesFound :: nat
  knownIssues :: "issue_summary list"
  analysis :: jsstring
  fixScript :: jsstring
  aiInsights :: jsstring

text \<open>
  \<open>fixes\<close> is a \<open>Map\<close>: its entries in insertion order, each key once. \<open>set\<close> on a key
  that is present replaces the value where the entry stands; on a new key it appends.
\<close>

type_synonym store = "(jsstring \<times> analysis_result) list"

definition map_has :: "store \<Rightarrow> jsstring \<Rightarrow> bool" where
  "map_has m k = (k \<in> fst ` set m)"

definition map_set :: "store \<Rightarrow> jsstring \<Rightarrow> analysis_result \<Rightarrow> store" where
  "map_set m k v =
     (if map_has m k then map (\<lambda>(k', v'). if k' = k then (k', v) else (k', v')) m
      else m @ [(k, v)])"

definition map_get :: "store \<Rightarrow> jsstring \<Rightarrow> analysis_result option" where
  "map_get m k = map_of m k"

definition map_delete :: "store \<Rightarrow> jsstring \<Rightarrow> store" where
  "map_delete m k = filter (\<lambda>(k', v'). k' \<noteq> k) m"

text \<open>
  \<open>fixes.set(fixId, result)\<close>, then the clean-up: when the size exceeds 1000 the first
  key of the iteration (insertion) order is deleted.
\<close>

definition remember :: "store \<Rightarrow> jsstring \<Rightarrow> analysis_result \<Rightarrow> store" where
  "remember m k v =
     (let m1 = map_set m k v
      in if length m1 > 1000 then map_delete m1 (fst (hd m1)) else m1)"

subsection \<open>The handlers\<close>

text \<open>
  The state of the server: the store (\<open>fixes_map\<close> is the module's \<open>fixes\<close>), and the
  requests sent to the provider so far (the payload and the known ids of each). What a
  request draws from outside is in \<open>env\<close>: the identifier \<open>nanoid(12)\<close> returns, the
  two readings of the clock and the provider.
\<close>

record server_state =
  fixes_map :: store
  sent :: "(jsval \<times> jsstring list) list"

record env =
  anthropic :: provider
  nanoid :: jsstring
  script_time :: jsstring
  result_time :: jsstring

datatype response =
    JsonError nat jsstring "jsstring option"
  | JsonResult analysis_result
  | PlainText jsstring

definition summarize :: "detection_result \<Rightarrow> issue_summary" where
  "summarize i =
     \<lparr>issue_id = issue_id i, severity = severity i, title = title i, description = description i\<rparr>"

text \<open>
  \<open>POST /diagnose\<close>. After the validation nothing in the \<open>try\<close> block throws
  (\<open>detectIssues\<close> and \<open>analyzeWithAI\<close> catch their own exceptions, and what the
  provider throws is an \<open>Error\<close> with a message), so the handler's \<open>catch\<close> with its
  status 500 is no branch of the model.
\<close>

definition diagnose :: "env \<Rightarrow> jsval \<Rightarrow> server_state \<Rightarrow> response \<times> server_state" where
  "diagnose e diagnostic st =
     (if \<not> truthy diagnostic \<or> \<not> truthy (read_prop diagnostic (str ''system''))
      then (JsonError 400 (str ''Invalid diagnostic payload'')
              (Some (str ''Run the diagnostic script: curl -sSL clawfix.com/fix | bash'')), st)
      else
        let found = detectIssues diagnostic;
            aiAnalysis = analyzeWithAI (anthropic e) diagnostic found;
            st1 = st\<lparr>sent := sent st @ [(diagnostic, map issue_id found)]\<rparr>;
            fixId = nanoid e;
            fixScript = generateFixScript found aiAnalysis fixId (script_time e);
            result =
              \<lparr>fixId = fixId,
               timestamp = result_time e,
               issuesFound = length found + length (additionalIssues aiAnalysis),
               knownIssues = map summarize found,
               analysis = summary aiAnalysis,
               fixScript = fixScript,
               aiInsights = insights aiAnalysis\<rparr>;
            fixes1 = remember (fixes_map st1) fixId result
        in (JsonResult result, st1\<lparr>fixes_map := fixes1\<rparr>))"

text \<open>\<open>GET /fix/:fixId\<close>, with the \<open>Accept\<close> header and the \<open>format\<close> query parameter.\<close>

record fix_request =
  param_fixId :: jsstring
  accept :: "jsstring option"
  format :: "jsstring option"

definition get_fix :: "fix_request \<Rightarrow> server_state \<Rightarrow> response" where
  "get_fix req st =
     (case map_get (fixes_map st) (param_fixId req) of
        None \<Rightarrow> JsonError 404 (str ''Fix not found or expired'') None
      | Some found \<Rightarrow>
          if accept req = Some (str ''text/plain'') \<or> format req = Some (str ''script'')
          then PlainText (fixScript found)
          else JsonResult found)"

subsection \<open>Sequences of requests\<close>

text \<open>
  The store after a sequence of accepted requests, each with its identifier and result;
  and the states the server can be in: it starts with an empty store and moves by
  \<open>POST /diagnose\<close> (\<open>GET /fix/:fixId\<close> changes nothing).
\<close>

definition inserts :: "store \<Rightarrow> (jsstring \<times> analysis_result) list \<Rightarrow> store" where
  "inserts m kvs = foldl (\<lambda>m (k, v). remember m k v) m kvs"


section \<open>Payloads and replies used as examples\<close>

text \<open>
  \<open>faulty_logs\<close>: \<open>{"system": {}, "logs": {"errors": {"toString": 1}}}\<close>. Its
  \<open>logs.errors\<close> is truthy and cannot be converted to a string.
\<close>

definition faulty_logs :: jsval where
  "faulty_logs =
     JObj [(str ''system'', JObj []),
           (str ''logs'', JObj [(str ''errors'', JObj [(str ''toString'', JNum 1)])])]"

text \<open>\<open>{"system": {}}\<close>\<close>

definition minimal_payload :: jsval where
  "minimal_payload = JObj [(str ''system'', JObj [])]"

text \<open>A log with the error of a port in use.\<close>

definition port_in_use :: jsval where
  "port_in_use =
     JObj [(str ''system'', JObj []),
           (str ''logs'',
            JObj [(str ''errors'',
                   JStr (str ''Error: listen EADDRINUSE: address already in use :::18789''))])]"

text \<open>
  An installation with hybrid search, context pruning and memory flush configured, a
  personality file and three memory files, no logs and no gateway status; its plugin
  entries are the parameter.
\<close>

definition healthy_with :: "(jsstring \<times> jsval) list \<Rightarrow> jsval" where
  "healthy_with plugin_entries =
     JObj [(str ''system'', JObj [(str ''os'', JStr (str ''linux''))]),
           (str ''config'',
            JObj [(str ''plugins'', JObj [(str ''entries'', JObj plugin_entries)]),
                  (str ''agents'',
                   JObj [(str ''defaults'',
                          JObj [(str ''memorySearch'',
                                 JObj [(str ''query'',
                                        JObj [(str ''hybrid'', JObj [(str ''enabled'', JBool True)])])]),
                                (str ''contextPruning'', JObj [(str ''mode'', JStr (str ''cache-ttl''))]),
                                (str ''compaction'',
                                 JObj [(str ''memoryFlush'', JObj [(str ''enabled'', JBool True)])])])])]),
           (str ''workspace'', JObj [(str ''hasSoul'', JBool True), (str ''memoryFiles'', JNum 3)])]"

text \<open>\<open>{"config": {"enableGraph": true}}\<close>, under the key \<open>mem0\<close> or \<open>openclaw-mem0\<close>.\<close>

definition graph_enabled :: jsval where
  "graph_enabled = JObj [(str ''config'', JObj [(str ''enableGraph'', JBool True)])]"

definition mem0_key_payload :: jsval where
  "mem0_key_payload = healthy_with [(str ''mem0'', graph_enabled)]"

definition openclaw_mem0_payload :: jsval where
  "openclaw_mem0_payload = healthy_with [(str ''openclaw-mem0'', graph_enabled)]"

text \<open>\<open>{"system": {}, "config": {"plugins": {"entries": {"mem0": {"config": {"enableGraph": true}}}}}}\<close>\<close>

definition bare_mem0_payload :: jsval where
  "bare_mem0_payload =
     JObj [(str ''system'', JObj []),
           (str ''config'',
            JObj [(str ''plugins'', JObj [(str ''entries'', JObj [(str ''mem0'', graph_enabled)])])])]"

text \<open>An analysis with no fixes from the AI.\<close>

definition quiet_ai :: ai_analysis where
  "quiet_ai = \<lparr>summary = [], insights = [], additionalIssues = [], additionalFixes = [], raw = None\<rparr>"

text \<open>A reply of the provider whose fix section edits the configuration file.\<close>

definition config_fix_reply :: jsstring where
  \<open>config_fix_reply =
     join nl
       [str ''## Summary'',
        str ''The gateway port is taken by another service.'',
        str ''## Fix'',
        str ''jq '.gateway.port = 18790' ~/.openclaw/openclaw.json > /tmp/oc-fix.json'']\<close>

definition config_fix_ai :: ai_analysis where
  "config_fix_ai =
     analyzeWithAI (\<lambda>diagnostic knownIds. Inr config_fix_reply) (healthy_with [])
       (detectIssues (healthy_with []))"

text \<open>A request whose provider call fails.\<close>

definition failing_env :: env where
  "failing_env =
     \<lparr>anthropic = (\<lambda>diagnostic knownIds. Inl (str ''Connection error.'')),
      nanoid = str ''V1StGXR8_Z5j'',
      script_time = str ''2026-01-01T00:00:00.000Z'',
      result_time = str ''2026-01-01T00:00:00.001Z''\<rparr>"

text \<open>1001 results under the identifiers \<open>[0]\<close>, ..., \<open>[1000]\<close>.\<close>

definition blank_result :: "jsstring \<Rightarrow> analysis_result" where
  "blank_result k =
     \<lparr>fixId = k, timestamp = [], issuesFound = 0, knownIssues = [], analysis = [],
      fixScript = [], aiInsights = []\<rparr>"

definition overfull :: "(jsstring \<times> analysis_result) list" where
  "overfull = map (\<lambda>n. ([n], blank_result [n])) [0..<1001]"

section \<open>Facts for evaluation\<close>

lemma str_inj: "str a = str b \<longleftrightarrow> a = b"
  unfolding str_def by (simp add: inj_map_eq_map inj_on_def)

lemma includes_str_sublist: "includes_str s t \<longleftrightarrow> sublist t s"
proof (induction s)
  case Nil
  show ?case by simp
next
  case (Cons c s)
  show ?case
  proof (cases t)
    case Nil
    then show ?thesis by simp
  next
    case (Cons a t')
    then show ?thesis
      using Cons.IH by (simp add: sublist_Cons_right)
  qed
qed

text \<open>The matcher decides the language of the expression; \<open>search\<close> finds a substring in it.\<close>

lemma nullable_lang: "nullable r \<longleftrightarrow> [] \<in> lang r"
  by (induction r) (auto intro: star.empty)

lemma star_cons:
  "c # w \<in> star A \<longleftrightarrow> (\<exists>u v. w = u @ v \<and> c # u \<in> A \<and> v \<in> star A)"
proof
  assume "c # w \<in> star A"
  then show "\<exists>u v. w = u @ v \<and> c # u \<in> A \<and> v \<in> star A"
  proof (induction "c # w" arbitrary: w rule: star.induct)
    case (more u v)
    show ?case
    proof (cases u)
      case Nil
      with more show ?thesis by simp
    next
      case (Cons a u')
      with more.hyps(1,2,4) show ?thesis by auto
    qed
  qed
next
  assume "\<exists>u v. w = u @ v \<and> c # u \<in> A \<and> v \<in> star A"
  then obtain u v where "w = u @ v" "c # u \<in> A" "v \<in> star A" by blast
  then show "c # w \<in> star A"
    using star.more [of "c # u" A v] by simp
qed

lemma lang_deriv: "lang (deriv c r) = {w. c # w \<in> lang r}"
proof (induction r)
  case (Seq r s)
  show ?case
  proof (cases "nullable r")
    case True
    then have "[] \<in> lang r" by (simp add: nullable_lang)
    with True Seq show ?thesis
      by (auto simp: Cons_eq_append_conv)
  next
    case False
    then have "[] \<notin> lang r" by (simp add: nullable_lang)
    with False Seq show ?thesis
      by (auto simp: Cons_eq_append_conv)
  qed
next
  case (Star r)
  then show ?case
    by (auto simp: star_cons)
qed auto

lemma matches_lang: "matches r w \<longleftrightarrow> w \<in> lang r"
  by (induction w arbitrary: r) (simp_all add: nullable_lang lang_deriv)

lemma star_any: "w \<in> star (lang any_unit)"
proof (induction w)
  case Nil
  show ?case by (rule star.empty)
next
  case (Cons c w)
  have "[c] \<in> lang any_unit" by (simp add: any_unit_def)
  from star.more [OF this Cons] show ?case by simp
qed

lemma search_lang: "search r s \<longleftrightarrow> (\<exists>a b c. s = a @ b @ c \<and> b \<in> lang r)"
  unfolding search_def matches_lang
  by (auto simp: star_any)

lemma detect_simps:
  "detect mem0_graph_free = detect_mem0_graph_free"
  "detect gateway_not_running = detect_gateway_not_running"
  "detect port_conflict = detect_port_conflict"
  "detect browser_port_binding = detect_browser_port_binding"
  "detect no_hybrid_search = detect_no_hybrid_search"
  "detect no_context_pruning = detect_no_context_pruning"
  "detect no_memory_flush = detect_no_memory_flush"
  "detect no_soul = detect_no_soul"
  "detect no_memory_files = detect_no_memory_files"
  "detect ggml_metal_crash = detect_ggml_metal_crash"
  "detect orphan_tool_calls = detect_orphan_tool_calls"
  "detect high_token_usage = detect_high_token_usage"
  by (simp_all add: mem0_graph_free_def gateway_not_running_def port_conflict_def
      browser_port_binding_def no_hybrid_search_def no_context_pruning_def no_memory_flush_def
      no_soul_def no_memory_files_def ggml_metal_crash_def orphan_tool_calls_def
      high_token_usage_def)

lemmas detect_defs =
  detect_mem0_graph_free_def detect_gateway_not_running_def detect_port_conflict_def
  detect_browser_port_binding_def detect_no_hybrid_search_def detect_no_context_pruning_def
  detect_no_memory_flush_def detect_no_soul_def detect_no_memory_files_def
  detect_ggml_metal_crash_def detect_orphan_tool_calls_def detect_high_token_usage_def

lemmas eval_defs =
  get_def opt_get_def bindE_def try_catch_def str_inj or_empty_def regex_test_def
  js_add_def search_def any_unit_def
  re_gateway_not_running_def re_port_conflict_def re_browser_port_binding_def
  re_ggml_metal_crash_def re_orphan_tool_calls_def lit_i_def seqs_def dot_def

text \<open>What the catalog detects on the example payloads.\<close>

lemma detect_minimal:
  "detectIssues (JObj [(str ''system'', s)]) =
     map project [no_hybrid_search, no_context_pruning, no_memory_flush, no_soul]"
  by (simp add: detectIssues_def detect_in_def KNOWN_ISSUES_def fires_def detect_simps
      detect_defs eval_defs)

lemma detect_bare_mem0:
  "detectIssues bare_mem0_payload =
     map project [no_hybrid_search, no_context_pruning, no_memory_flush, no_soul]"
  by (simp add: detectIssues_def detect_in_def KNOWN_ISSUES_def fires_def detect_simps
      bare_mem0_payload_def graph_enabled_def detect_defs eval_defs)

lemma fires_healthy:
  "filter (fires (healthy_with es)) KNOWN_ISSUES = filter (fires (healthy_with es)) [mem0_graph_free]"
  by (simp add: KNOWN_ISSUES_def fires_def detect_simps healthy_with_def
      detect_gateway_not_running_def detect_port_conflict_def
      detect_browser_port_binding_def detect_no_hybrid_search_def detect_no_context_pruning_def
      detect_no_memory_flush_def detect_no_soul_def detect_no_memory_files_def
      detect_ggml_metal_crash_def detect_orphan_tool_calls_def detect_high_token_usage_def
      eval_defs)

lemma detect_healthy: "detectIssues (healthy_with []) = []"
  unfolding detectIssues_def detect_in_def fires_healthy
  by (simp add: fires_def detect_simps detect_mem0_graph_free_def healthy_with_def eval_defs)

lemma detect_mem0_key: "detectIssues mem0_key_payload = []"
  unfolding detectIssues_def detect_in_def mem0_key_payload_def fires_healthy
  by (simp add: fires_def detect_simps detect_mem0_graph_free_def healthy_with_def
      graph_enabled_def eval_defs)

lemma detect_openclaw_mem0: "detectIssues openclaw_mem0_payload = [project mem0_graph_free]"
  unfolding detectIssues_def detect_in_def openclaw_mem0_payload_def fires_healthy
  by (simp add: fires_def detect_simps detect_mem0_graph_free_def healthy_with_def
      graph_enabled_def eval_defs)

text \<open>The scenario of the port in use: the rule \<open>port-conflict\<close> matches.\<close>

lemma port_conflict_fires: "fires port_in_use port_conflict"
  by (simp add: fires_def detect_simps detect_port_conflict_def port_in_use_def eval_defs
      str_def fold_case_def)

lemma issue_titles:
  "title (project no_hybrid_search) = str ''Hybrid search not enabled''"
  "title (project no_context_pruning) = str ''No context pruning configured''"
  "title (project no_memory_flush) = str ''Memory flush not enabled''"
  "severity (project no_hybrid_search) = Medium"
  "severity (project no_context_pruning) = Medium"
  "severity (project no_memory_flush) = High"
  "severity (project no_soul) = Low"
  by (simp_all add: project_def no_hybrid_search_def no_context_pruning_def
      no_memory_flush_def no_soul_def)

lemma other_ids:
  "issue_id gateway_not_running \<noteq> str ''mem0-graph-free''"
  "issue_id port_conflict \<noteq> str ''mem0-graph-free''"
  "issue_id browser_port_binding \<noteq> str ''mem0-graph-free''"
  "issue_id no_hybrid_search \<noteq> str ''mem0-graph-free''"
  "issue_id no_context_pruning \<noteq> str ''mem0-graph-free''"
  "issue_id no_memory_flush \<noteq> str ''mem0-graph-free''"
  "issue_id no_soul \<noteq> str ''mem0-graph-free''"
  "issue_id no_memory_files \<noteq> str ''mem0-graph-free''"
  "issue_id ggml_metal_crash \<noteq> str ''mem0-graph-free''"
  "issue_id orphan_tool_calls \<noteq> str ''mem0-graph-free''"
  "issue_id high_token_usage \<noteq> str ''mem0-graph-free''"
  by (simp_all add: gateway_not_running_def port_conflict_def
      browser_port_binding_def no_hybrid_search_def no_context_pruning_def no_memory_flush_def
      no_soul_def no_memory_files_def ggml_metal_crash_def orphan_tool_calls_def
      high_token_usage_def str_inj)

lemma mem0_id_severity:
  "issue_id (project mem0_graph_free) = str ''mem0-graph-free''"
  "severity (project mem0_graph_free) = Critical"
  by (simp_all add: project_def mem0_graph_free_def)

lemma mem0_fix_touches_config:
  "includes_str (fix_body (project mem0_graph_free)) (str ''openclaw.json'')"
  by (simp add: project_def mem0_graph_free_def str_def nl_def backslash_def check_mark_def
      em_dash_def)

text \<open>What \<open>analyzeWithAI\<close> extracts from the example reply.\<close>

lemma config_fix_ai_fixes:
  \<open>additionalFixes config_fix_ai =
     str ''jq '.gateway.port = 18790' ~/.openclaw/openclaw.json > /tmp/oc-fix.json''\<close>
  by (simp add: config_fix_ai_def analyzeWithAI_def config_fix_reply_def extractSection_def
      heading_def trim_def List.map_filter_def str_def nl_def fold_case_def is_space_def)

section \<open>Fault isolation in detectIssues\<close>

lemma detect_in_skip:
  assumes "n < length catalog" and "\<not> fires diagnostic (catalog ! n)"
  shows "detect_in catalog diagnostic =
         detect_in (take n catalog @ drop (Suc n) catalog) diagnostic"
proof -
  have "catalog = take n catalog @ (catalog ! n) # drop (Suc n) catalog"
    using assms(1) by (simp add: id_take_nth_drop)
  then have "filter (fires diagnostic) catalog =
      filter (fires diagnostic) (take n catalog) @
      filter (fires diagnostic) ((catalog ! n) # drop (Suc n) catalog)"
    by (metis filter_append)
  with assms(2) show ?thesis
    by (simp add: detect_in_def)
qed

text \<open>
  C1. When the predicate of the \<open>n\<close>-th catalog entry throws on a payload, that entry does
  not count as detected, and \<open>detectIssues\<close> returns the very list it returns over the
  catalog with that entry taken out: nothing propagates, and the other entries are kept
  or dropped as before, in the same order.
\<close>

theorem detectIssues_isolates_throwing_rule:
  assumes "n < length KNOWN_ISSUES"
    and "detect (KNOWN_ISSUES ! n) diagnostic = Inl e"
  shows "\<not> fires diagnostic (KNOWN_ISSUES ! n) \<and>
         detectIssues diagnostic =
           detect_in (take n KNOWN_ISSUES @ drop (Suc n) KNOWN_ISSUES) diagnostic"
proof -
  have nf: "\<not> fires diagnostic (KNOWN_ISSUES ! n)"
    using assms(2) by (simp add: fires_def)
  with assms(1) show ?thesis
    unfolding detectIssues_def by (simp add: detect_in_skip)
qed

lemma port_conflict_throws_on_faulty_logs:
  "detect (KNOWN_ISSUES ! 2) faulty_logs = Inl TypeError"
  by (simp add: KNOWN_ISSUES_def detect_simps detect_port_conflict_def faulty_logs_def
     get_def opt_get_def bindE_def str_inj or_empty_def regex_test_def)

theorem detectIssues_isolates_throwing_rule_witness:
  "2 < length KNOWN_ISSUES \<and>
   detect (KNOWN_ISSUES ! 2) faulty_logs = Inl TypeError \<and>
   \<not> fires faulty_logs (KNOWN_ISSUES ! 2) \<and>
   detectIssues faulty_logs =
     detect_in (take 2 KNOWN_ISSUES @ drop (Suc 2) KNOWN_ISSUES) faulty_logs"
proof -
  have len: "2 < length KNOWN_ISSUES"
    by (simp add: KNOWN_ISSUES_def)
  show ?thesis
    using len port_conflict_throws_on_faulty_logs
      detectIssues_isolates_throwing_rule [OF len port_conflict_throws_on_faulty_logs]
    by simp
qed

section \<open>The composed script\<close>

lemma foldl_push_issue: "foldl push_issue lines ks = lines @ concat (map issue_block ks)"
  by (induction ks arbitrary: lines) (simp_all add: push_issue_def)

lemma script_lines_eq:
  "script_lines ks ai fid now =
     initial_lines fid now @ concat (map issue_block ks)
     @ (if additionalFixes ai \<noteq> [] then ai_block (additionalFixes ai) else [])
     @ (if touches_config ks then restart_block else [])
     @ completion_banner fid"
  by (simp add: script_lines_def foldl_push_issue Let_def)




text \<open>
  C4, as amended. The script is the opening lines, which end with the backup step; then
  the blocks of the matched catalog entries in catalog order (not by severity); then the
  fixes of the AI when there are any; then the restart block when a matched fix names the
  configuration file; then the completion banner.
\<close>

theorem script_layout:
  \<open>generateFixScript (detectIssues d) ai fid now =
     join nl
       (initial_lines fid now
        @ concat (map issue_block (map project (filter (fires d) KNOWN_ISSUES)))
        @ (if additionalFixes ai \<noteq> [] then ai_block (additionalFixes ai) else [])
        @ (if touches_config (detectIssues d) then restart_block else [])
        @ completion_banner fid) \<and>
   drop 9 (initial_lines fid now) =
     [str ''# Backup current config'',
      str ''if [ -f ~/.openclaw/openclaw.json ]; then'',
      str ''  cp ~/.openclaw/openclaw.json ~/.openclaw/openclaw.json.bak.$(date +%s)'',
      str ''  echo "'' @ check_mark @ str '' Config backed up"'',
      str ''fi'',
      []]\<close>
proof -
  have "detectIssues d = map project (filter (fires d) KNOWN_ISSUES)"
    by (simp add: detectIssues_def detect_in_def)
  then show ?thesis
    by (simp add: generateFixScript_def script_lines_eq initial_lines_def)
qed

text \<open>
  C4 as stated fails on \<open>{"system": {}}\<close>: the detection results have the severities
  medium, medium, high, low, and in the script the block of the medium issue
  (line 19) stands before the block of the high one (line 23).
\<close>

theorem script_not_sorted_by_severity:
  "map severity (detectIssues minimal_payload) = [Medium, Medium, High, Low] \<and>
   script_lines (detectIssues minimal_payload) quiet_ai (str ''id'') (str ''now'') ! 19
     = str ''# '' @ dashes @ str '' Fix: No context pruning configured (medium) '' @ dashes \<and>
   script_lines (detectIssues minimal_payload) quiet_ai (str ''id'') (str ''now'') ! 23
     = str ''# '' @ dashes @ str '' Fix: Memory flush not enabled (high) '' @ dashes"
  unfolding minimal_payload_def detect_minimal script_lines_eq
  by (simp add: initial_lines_def issue_block_def issue_titles str_def)

subsection \<open>The restart block\<close>

lemma suffix_last_part:
  assumes "suffix r (ys @ z)" and "length z \<le> length r"
  shows "drop (length r - length z) r = z"
proof -
  from assms(1) obtain p where p: "ys @ z = p @ r"
    by (auto simp: suffix_def)
  have "drop (length (p @ r) - length z) (p @ r) = z"
    using p by (metis append_eq_conv_conj length_append add_diff_cancel_right')
  moreover have "length (p @ r) - length z = length p + (length r - length z)"
    using assms(2) by simp
  ultimately show ?thesis by simp
qed

lemma no_restart_after_initial: "\<not> suffix restart_block (initial_lines fid now)"
proof
  assume "suffix restart_block (initial_lines fid now)"
  then have "suffix restart_block
      (take 11 (initial_lines fid now) @ drop 11 (initial_lines fid now))"
    by simp
  then have "drop (length restart_block - length (drop 11 (initial_lines fid now))) restart_block
      = drop 11 (initial_lines fid now)"
    by (rule suffix_last_part) (simp add: restart_block_def initial_lines_def)
  then show False
    by (simp add: restart_block_def initial_lines_def str_def)
qed

lemma no_restart_after_issue: "\<not> suffix restart_block (ys @ issue_block i)"
proof
  assume "suffix restart_block (ys @ issue_block i)"
  then have "drop (length restart_block - length (issue_block i)) restart_block = issue_block i"
    by (rule suffix_last_part) (simp add: restart_block_def issue_block_def)
  then show False
    by (simp add: restart_block_def issue_block_def str_def dashes_def)
qed

lemma no_restart_after_ai: "\<not> suffix restart_block (ys @ ai_block t)"
proof
  assume "suffix restart_block (ys @ ai_block t)"
  then have "drop (length restart_block - length (ai_block t)) restart_block = ai_block t"
    by (rule suffix_last_part) (simp add: restart_block_def ai_block_def)
  then show False
    by (simp add: restart_block_def ai_block_def str_def dashes_def)
qed

lemma restart_block_iff:
  "suffix (restart_block @ completion_banner fid) (script_lines ks ai fid now)
     \<longleftrightarrow> touches_config ks"
proof (cases "touches_config ks")
  case True
  then show ?thesis
    by (simp add: script_lines_eq suffix_def)
next
  case False
  have "\<not> suffix restart_block
        (initial_lines fid now @ concat (map issue_block ks)
         @ (if additionalFixes ai \<noteq> [] then ai_block (additionalFixes ai) else []))"
  proof (cases "additionalFixes ai \<noteq> []")
    case True
    then show ?thesis
      using no_restart_after_ai [of "initial_lines fid now @ concat (map issue_block ks)"]
      by simp
  next
    case noai: False
    show ?thesis
    proof (cases ks rule: rev_cases)
      case Nil
      then show ?thesis using noai no_restart_after_initial by simp
    next
      case (snoc ks' k)
      then show ?thesis
        using noai
          no_restart_after_issue [of "initial_lines fid now @ concat (map issue_block ks')" k]
        by simp
    qed
  qed
  moreover have "script_lines ks ai fid now =
      (initial_lines fid now @ concat (map issue_block ks)
         @ (if additionalFixes ai \<noteq> [] then ai_block (additionalFixes ai) else []))
      @ completion_banner fid"
    using False by (simp add: script_lines_eq)
  ultimately show ?thesis
    using False by (simp only: same_suffix_suffix)
qed

text \<open>
  C8, as amended. The completion banner is preceded by the restart block if and only if
  the fix body of at least one detection result from the catalog contains
  \<open>openclaw.json\<close>. The fixes of the AI are not looked at.
\<close>

theorem restart_block_follows_catalog_fixes:
  "suffix (restart_block @ completion_banner fid) (script_lines found ai fid now)
     \<longleftrightarrow> list_ex (\<lambda>i. includes_str (fix_body i) (str ''openclaw.json'')) found"
  using restart_block_iff [of fid found ai now] by (simp add: touches_config_def)

text \<open>
  C8 as stated fails when only the AI names the configuration file. On the healthy
  installation no catalog rule matches; the provider replies with a fix that edits
  \<open>openclaw.json\<close>; the script carries that fix and no restart block.
\<close>

theorem ai_fix_gets_no_restart:
  \<open>includes_str (additionalFixes config_fix_ai) (str ''openclaw.json'') \<and>
   script_lines (detectIssues (healthy_with [])) config_fix_ai (str ''id'') (str ''now'') =
     initial_lines (str ''id'') (str ''now'')
     @ ai_block (str ''jq '.gateway.port = 18790' ~/.openclaw/openclaw.json > /tmp/oc-fix.json'')
     @ completion_banner (str ''id'') \<and>
   \<not> suffix (restart_block @ completion_banner (str ''id''))
       (script_lines (detectIssues (healthy_with [])) config_fix_ai (str ''id'') (str ''now''))\<close>
proof -
  have inc: "includes_str (additionalFixes config_fix_ai) (str ''openclaw.json'')"
    unfolding config_fix_ai_fixes by (simp add: str_def)
  have ne: "additionalFixes config_fix_ai \<noteq> []"
    unfolding config_fix_ai_fixes by (simp add: str_def)
  have lines: \<open>script_lines (detectIssues (healthy_with [])) config_fix_ai (str ''id'') (str ''now'') =
     initial_lines (str ''id'') (str ''now'')
     @ ai_block (str ''jq '.gateway.port = 18790' ~/.openclaw/openclaw.json > /tmp/oc-fix.json'')
     @ completion_banner (str ''id'')\<close>
    unfolding detect_healthy script_lines_eq using ne
    by (simp add: touches_config_def config_fix_ai_fixes)
  have "\<not> suffix (restart_block @ completion_banner (str ''id''))
       (script_lines (detectIssues (healthy_with [])) config_fix_ai (str ''id'') (str ''now''))"
    unfolding detect_healthy restart_block_iff by (simp add: touches_config_def)
  with inc lines show ?thesis by blast
qed

section \<open>Single rules\<close>

lemma only_mem0_fires:
  assumes "path d [str ''config'', str ''plugins'', str ''entries'', str ''openclaw-mem0'',
                   str ''config'', str ''enableGraph''] = Inr (JBool True)"
    and "\<forall>i\<in>set KNOWN_ISSUES. issue_id i \<noteq> str ''mem0-graph-free'' \<longrightarrow> \<not> fires d i"
  shows "detectIssues d = [project mem0_graph_free]"
proof -
  have yes: "fires d mem0_graph_free"
    using assms(1)
    by (simp add: fires_def detect_simps detect_mem0_graph_free_def try_catch_def bindE_def)
  have no: "\<not> fires d gateway_not_running" "\<not> fires d port_conflict"
    "\<not> fires d browser_port_binding" "\<not> fires d no_hybrid_search"
    "\<not> fires d no_context_pruning" "\<not> fires d no_memory_flush" "\<not> fires d no_soul"
    "\<not> fires d no_memory_files" "\<not> fires d ggml_metal_crash" "\<not> fires d orphan_tool_calls"
    "\<not> fires d high_token_usage"
    using assms(2) other_ids by (simp_all add: KNOWN_ISSUES_def)
  show ?thesis
    unfolding detectIssues_def detect_in_def KNOWN_ISSUES_def
    using yes no by simp
qed

text \<open>
  C7, as amended. When \<open>config.plugins.entries["openclaw-mem0"].config.enableGraph\<close> is
  \<open>true\<close> and no other rule of the catalog matches, there is exactly one detection
  result, \<open>mem0-graph-free\<close> with severity critical; the script is the opening lines
  with the backup step, the one block of that issue, the fixes of the AI when there are
  any, the restart block (the fix body of the issue contains \<open>openclaw.json\<close>) and the
  completion banner.
\<close>

theorem openclaw_mem0_graph_alone:
  assumes "path d [str ''config'', str ''plugins'', str ''entries'', str ''openclaw-mem0'',
                   str ''config'', str ''enableGraph''] = Inr (JBool True)"
    and "\<forall>i\<in>set KNOWN_ISSUES. issue_id i \<noteq> str ''mem0-graph-free'' \<longrightarrow> \<not> fires d i"
  shows "map (\<lambda>r. (issue_id r, severity r)) (detectIssues d) = [(str ''mem0-graph-free'', Critical)] \<and>
         detectIssues d = [project mem0_graph_free] \<and>
         includes_str (fix_body (project mem0_graph_free)) (str ''openclaw.json'') \<and>
         script_lines (detectIssues d) ai fid now =
           initial_lines fid now @ issue_block (project mem0_graph_free)
           @ (if additionalFixes ai \<noteq> [] then ai_block (additionalFixes ai) else [])
           @ restart_block @ completion_banner fid"
proof -
  have d: "detectIssues d = [project mem0_graph_free]"
    using assms by (rule only_mem0_fires)
  have t: "touches_config [project mem0_graph_free]"
    using mem0_fix_touches_config by (simp add: touches_config_def)
  show ?thesis
    unfolding d script_lines_eq using t mem0_fix_touches_config
    by (simp add: mem0_id_severity)
qed

lemma openclaw_mem0_path:
  "path openclaw_mem0_payload [str ''config'', str ''plugins'', str ''entries'',
      str ''openclaw-mem0'', str ''config'', str ''enableGraph''] = Inr (JBool True)"
  by (simp add: openclaw_mem0_payload_def healthy_with_def graph_enabled_def eval_defs)

lemma openclaw_mem0_others:
  "\<forall>i\<in>set KNOWN_ISSUES. issue_id i \<noteq> str ''mem0-graph-free'' \<longrightarrow> \<not> fires openclaw_mem0_payload i"
proof -
  have "set (filter (fires openclaw_mem0_payload) KNOWN_ISSUES) \<subseteq> {mem0_graph_free}"
    unfolding openclaw_mem0_payload_def fires_healthy by auto
  then have "\<forall>i\<in>set KNOWN_ISSUES. fires openclaw_mem0_payload i \<longrightarrow> i = mem0_graph_free"
    by auto
  moreover have "issue_id mem0_graph_free = str ''mem0-graph-free''"
    by (simp add: mem0_graph_free_def)
  ultimately show ?thesis by auto
qed

theorem openclaw_mem0_graph_alone_witness:
  "path openclaw_mem0_payload [str ''config'', str ''plugins'', str ''entries'',
      str ''openclaw-mem0'', str ''config'', str ''enableGraph''] = Inr (JBool True) \<and>
   map (\<lambda>r. (issue_id r, severity r)) (detectIssues openclaw_mem0_payload)
     = [(str ''mem0-graph-free'', Critical)] \<and>
   script_lines (detectIssues openclaw_mem0_payload) quiet_ai (str ''id'') (str ''now'') =
           initial_lines (str ''id'') (str ''now'') @ issue_block (project mem0_graph_free)
           @ restart_block @ completion_banner (str ''id'')"
proof -
  have q: "additionalFixes quiet_ai = []"
    by (simp add: quiet_ai_def)
  show ?thesis
    using openclaw_mem0_path
      openclaw_mem0_graph_alone [OF openclaw_mem0_path openclaw_mem0_others,
        of quiet_ai "str ''id''" "str ''now''"]
    unfolding q by (elim conjE) simp
qed

text \<open>
  C7 as stated fails: the rule reads the key \<open>openclaw-mem0\<close>, not \<open>mem0\<close>. With
  \<open>enableGraph\<close> true under \<open>mem0\<close>, the healthy installation has no detection result
  at all, and the payload that has nothing else but \<open>system\<close> has the four results of
  the absent features, none of them \<open>mem0-graph-free\<close>.
\<close>

theorem mem0_key_is_not_read:
  "truthy (read_prop mem0_key_payload (str ''system'')) \<and>
   path mem0_key_payload [str ''config'', str ''plugins'', str ''entries'', str ''mem0'',
                          str ''config'', str ''enableGraph''] = Inr (JBool True) \<and>
   detectIssues mem0_key_payload = [] \<and>
   path bare_mem0_payload [str ''config'', str ''plugins'', str ''entries'', str ''mem0'',
                          str ''config'', str ''enableGraph''] = Inr (JBool True) \<and>
   map issue_id (detectIssues bare_mem0_payload) =
     [str ''no-hybrid-search'', str ''no-context-pruning'', str ''no-memory-flush'', str ''no-soul'']"
proof -
  have a: "truthy (read_prop mem0_key_payload (str ''system'')) \<and>
      path mem0_key_payload [str ''config'', str ''plugins'', str ''entries'', str ''mem0'',
                          str ''config'', str ''enableGraph''] = Inr (JBool True)"
    by (simp add: mem0_key_payload_def healthy_with_def graph_enabled_def eval_defs)
  have b: "path bare_mem0_payload [str ''config'', str ''plugins'', str ''entries'', str ''mem0'',
                          str ''config'', str ''enableGraph''] = Inr (JBool True)"
    by (simp add: bare_mem0_payload_def graph_enabled_def eval_defs)
  have c: "map issue_id (detectIssues bare_mem0_payload) =
     [str ''no-hybrid-search'', str ''no-context-pruning'', str ''no-memory-flush'', str ''no-soul'']"
    unfolding detect_bare_mem0
    by (simp add: project_def no_hybrid_search_def no_context_pruning_def no_memory_flush_def
        no_soul_def)
  from a b c detect_mem0_key show ?thesis by blast
qed

text \<open>
  C10. The rule \<open>no-memory-files\<close> matches exactly when \<open>workspace.memoryFiles\<close> is the
  number \<open>0\<close>; it does not match when \<open>workspace\<close> or \<open>workspace.memoryFiles\<close> is
  absent; and on a payload with nothing but \<open>system\<close> the detection results are those of
  the four other rules for absent features.
\<close>

theorem no_memory_files_only_on_zero:
  "(fires d no_memory_files \<longleftrightarrow>
      \<not> nullish d \<and> opt_get (read_prop d (str ''workspace'')) (str ''memoryFiles'') = JNum 0) \<and>
   (read_prop d (str ''workspace'') = JUndefined \<or>
    read_prop (read_prop d (str ''workspace'')) (str ''memoryFiles'') = JUndefined
      \<longrightarrow> \<not> fires d no_memory_files) \<and>
   detectIssues (JObj [(str ''system'', s)]) =
     map project [no_hybrid_search, no_context_pruning, no_memory_flush, no_soul]"
proof -
  have iff: "fires d no_memory_files \<longleftrightarrow>
      \<not> nullish d \<and> opt_get (read_prop d (str ''workspace'')) (str ''memoryFiles'') = JNum 0"
    by (simp add: fires_def detect_simps detect_no_memory_files_def get_def bindE_def)
  have "\<not> fires d no_memory_files"
    if "read_prop d (str ''workspace'') = JUndefined \<or>
        read_prop (read_prop d (str ''workspace'')) (str ''memoryFiles'') = JUndefined"
    using that unfolding iff by (auto simp: opt_get_def)
  with iff detect_minimal show ?thesis by blast
qed

theorem no_memory_files_only_on_zero_witness:
  "read_prop minimal_payload (str ''workspace'') = JUndefined \<and>
   \<not> fires minimal_payload no_memory_files \<and>
   detectIssues minimal_payload =
     map project [no_hybrid_search, no_context_pruning, no_memory_flush, no_soul]"
proof -
  have w: "read_prop minimal_payload (str ''workspace'') = JUndefined"
    by (simp add: minimal_payload_def str_inj)
  show ?thesis
    using w no_memory_files_only_on_zero [of minimal_payload "JObj []"]
    unfolding minimal_payload_def by (elim conjE) simp
qed

section \<open>The diagnose operation\<close>

text \<open>
  C2. A body that is absent, or that has no \<open>system\<close> property, is answered with status
  400, the error \<open>Invalid diagnostic payload\<close> and the hint to run the diagnostic
  script; the state is returned as it was: nothing is stored and no request goes to
  the provider. The answer depends on neither the catalog nor the provider.
\<close>

theorem diagnose_rejects_without_system:
  assumes "diagnostic = JUndefined \<or> read_prop diagnostic (str ''system'') = JUndefined"
  shows "diagnose e diagnostic st =
           (JsonError 400 (str ''Invalid diagnostic payload'')
              (Some (str ''Run the diagnostic script: curl -sSL clawfix.com/fix | bash'')), st)"
  using assms by (auto simp: diagnose_def)

theorem diagnose_rejects_without_system_witness:
  "read_prop (JObj []) (str ''system'') = JUndefined \<and>
   diagnose failing_env (JObj []) \<lparr>fixes_map = [], sent = []\<rparr> =
           (JsonError 400 (str ''Invalid diagnostic payload'')
              (Some (str ''Run the diagnostic script: curl -sSL clawfix.com/fix | bash'')),
            \<lparr>fixes_map = [], sent = []\<rparr>)"
proof -
  have h: "read_prop (JObj []) (str ''system'') = JUndefined" by simp
  then have "JObj [] = JUndefined \<or> read_prop (JObj []) (str ''system'') = JUndefined" by simp
  from h diagnose_rejects_without_system [OF this] show ?thesis by simp
qed





section \<open>The result store\<close>




lemma length_map_set:
  "length (map_set m k v) = (if map_has m k then length m else Suc (length m))"
  by (simp add: map_set_def)


lemma length_remember: "length m \<le> 1000 \<Longrightarrow> length (remember m k v) \<le> 1000"
proof -
  assume le: "length m \<le> 1000"
  show ?thesis
  proof (cases "length (map_set m k v) > 1000")
    case False
    then show ?thesis by (simp add: remember_def Let_def)
  next
    case True
    with le have l: "length (map_set m k v) = 1001"
      by (simp add: length_map_set split: if_splits)
    then obtain a r where ms: "map_set m k v = a # r" by (cases "map_set m k v") auto
    have "length (filter (\<lambda>(k', v'). k' \<noteq> fst a) (a # r)) \<le> length r"
      by (cases a) simp
    with l ms show ?thesis
      by (simp add: remember_def Let_def map_delete_def)
  qed
qed





lemma remember_new:
  assumes "k \<notin> fst ` set m" and "distinct (map fst m)" and "length m \<le> 1000"
  shows "remember m k v = drop (Suc (length m) - 1000) (m @ [(k, v)])"
proof -
  have set: "map_set m k v = m @ [(k, v)]"
    using assms(1) by (simp add: map_set_def map_has_def)
  show ?thesis
  proof (cases "length m < 1000")
    case True
    then show ?thesis by (simp add: remember_def set)
  next
    case False
    with assms(3) have len: "length m = 1000" by simp
    then obtain a m' where m: "m = a # m'" by (cases m) auto
    have "fst a \<notin> fst ` set m'"
      using assms(2) unfolding m by simp
    then have "\<forall>x\<in>set m'. fst x \<noteq> fst a"
      by (metis imageI)
    then have "filter (\<lambda>(k', v'). k' \<noteq> fst a) m' = m'"
      by (simp add: filter_id_conv case_prod_beta)
    moreover have "k \<noteq> fst a"
      using assms(1) unfolding m by auto
    ultimately have "map_delete (m @ [(k, v)]) (fst (hd (m @ [(k, v)]))) = m' @ [(k, v)]"
      by (simp add: map_delete_def m case_prod_beta)
    moreover have "remember m k v = map_delete (m @ [(k, v)]) (fst (hd (m @ [(k, v)])))"
      using len by (simp add: remember_def set Let_def)
    moreover have "drop (Suc (length m) - 1000) (m @ [(k, v)]) = m' @ [(k, v)]"
      using len by (simp add: m)
    ultimately show ?thesis
      by simp
  qed
qed

lemma inserts_keep_last:
  assumes "distinct (map fst (m @ kvs))" and "length m \<le> 1000"
  shows "inserts m kvs = drop (length (m @ kvs) - 1000) (m @ kvs)"
  using assms
proof (induction kvs arbitrary: m)
  case Nil
  then show ?case by (simp add: inserts_def)
next
  case (Cons kv kvs)
  obtain k v where kv: "kv = (k, v)" by (cases kv)
  let ?m' = "drop (Suc (length m) - 1000) (m @ [(k, v)])"
  have new: "k \<notin> fst ` set m" and dm: "distinct (map fst m)"
    using Cons.prems(1) by (auto simp: kv)
  have r: "remember m k v = ?m'"
    using new dm Cons.prems(2) by (rule remember_new)
  have d': "distinct (map fst (?m' @ kvs))"
  proof -
    have "distinct (map fst ((m @ [(k, v)]) @ kvs))"
      using Cons.prems(1) by (simp add: kv)
    then have "distinct (drop (Suc (length m) - 1000) (map fst ((m @ [(k, v)]) @ kvs)))"
      by (rule distinct_drop)
    then show ?thesis
      by (simp add: drop_map)
  qed
  have l': "length ?m' \<le> 1000"
    using Cons.prems(2) by simp
  have "inserts m (kv # kvs) = inserts ?m' kvs"
    by (simp add: inserts_def kv r)
  also have "\<dots> = drop (length (?m' @ kvs) - 1000) (?m' @ kvs)"
    using d' l' by (rule Cons.IH)
  also have "\<dots> = drop (length (m @ kv # kvs) - 1000) (m @ kv # kvs)"
  proof -
    let ?b = "Suc (length m) - 1000"
    have x: "?m' @ kvs = drop ?b (m @ kv # kvs)"
      by (simp add: kv)
    have "length (drop ?b (m @ kv # kvs)) - 1000 + ?b = length (m @ kv # kvs) - 1000"
      using Cons.prems(2) by simp
    then show ?thesis
      unfolding x by (simp only: drop_drop)
  qed
  finally show ?case .
qed

lemma map_of_distinct_member:
  "distinct (map fst m) \<Longrightarrow> (k, v) \<in> set m \<Longrightarrow> map_of m k = Some v"
  by simp

lemma length_inserts: "length m \<le> 1000 \<Longrightarrow> length (inserts m kvs) \<le> 1000"
proof (induction kvs arbitrary: m)
  case Nil
  then show ?case by (simp add: inserts_def)
next
  case (Cons kv kvs)
  obtain k v where kv: "kv = (k, v)" by (cases kv)
  have "length (remember m k v) \<le> 1000"
    using Cons.prems by (rule length_remember)
  then have "length (inserts (remember m k v) kvs) \<le> 1000"
    by (rule Cons.IH)
  then show ?case
    by (simp add: inserts_def kv)
qed

text \<open>
  C6. After any sequence of insertions the store holds at most 1000 entries. When the
  identifiers are pairwise distinct (they are fresh), it holds the last 1000 insertions,
  or all when there are fewer, in insertion order: the earliest ones are evicted,
  whatever was looked up in between (a lookup does not change the store). A lookup of
  an evicted identifier or of one never inserted answers 404; a lookup of a retained one
  answers with the stored result, or with its script as plain text.
\<close>

theorem store_keeps_last_thousand:
  "length (inserts [] kvs) \<le> 1000 \<and>
   (distinct (map fst kvs) \<longrightarrow>
      inserts [] kvs = drop (length kvs - 1000) kvs \<and>
      (\<forall>(k, v) \<in> set (take (length kvs - 1000) kvs).
         get_fix \<lparr>param_fixId = k, accept = ac, format = fm\<rparr>
           \<lparr>fixes_map = inserts [] kvs, sent = s\<rparr>
           = JsonError 404 (str ''Fix not found or expired'') None) \<and>
      (\<forall>k. k \<notin> fst ` set kvs \<longrightarrow>
         get_fix \<lparr>param_fixId = k, accept = ac, format = fm\<rparr>
           \<lparr>fixes_map = inserts [] kvs, sent = s\<rparr>
           = JsonError 404 (str ''Fix not found or expired'') None) \<and>
      (\<forall>(k, v) \<in> set (drop (length kvs - 1000) kvs).
         get_fix \<lparr>param_fixId = k, accept = None, format = None\<rparr>
           \<lparr>fixes_map = inserts [] kvs, sent = s\<rparr> = JsonResult v \<and>
         get_fix \<lparr>param_fixId = k, accept = Some (str ''text/plain''), format = fm\<rparr>
           \<lparr>fixes_map = inserts [] kvs, sent = s\<rparr> = PlainText (fixScript v)))"
proof (intro conjI impI)
  show "length (inserts [] kvs) \<le> 1000"
    using length_inserts [of "[]" kvs] by simp
next
  assume dist: "distinct (map fst kvs)"
  let ?n = "length kvs - 1000"
  have eq: "inserts [] kvs = drop ?n kvs"
    using inserts_keep_last [of "[]" kvs] dist by simp
  have dd: "distinct (map fst (drop ?n kvs))"
    using dist by (simp add: drop_map [symmetric] distinct_drop)
  have disj: "fst ` set (take ?n kvs) \<inter> fst ` set (drop ?n kvs) = {}"
  proof -
    have "distinct (map fst (take ?n kvs) @ map fst (drop ?n kvs))"
      using dist by (simp add: map_append [symmetric] del: map_append)
    then show ?thesis by simp
  qed
  have evicted: "map_of (drop ?n kvs) k = None" if "(k, v) \<in> set (take ?n kvs)" for k v
  proof -
    have "k \<in> fst ` set (take ?n kvs)" using that by force
    with disj have "k \<notin> fst ` set (drop ?n kvs)" by blast
    then show ?thesis by (simp add: map_of_eq_None_iff)
  qed
  have unknown: "map_of (drop ?n kvs) k = None" if "k \<notin> fst ` set kvs" for k
  proof -
    have "set (drop ?n kvs) \<subseteq> set kvs" by (rule set_drop_subset)
    with that have "k \<notin> fst ` set (drop ?n kvs)" by blast
    then show ?thesis by (simp add: map_of_eq_None_iff)
  qed
  have kept: "map_of (drop ?n kvs) k = Some v" if "(k, v) \<in> set (drop ?n kvs)" for k v
    using dd that by simp
  show "inserts [] kvs = drop ?n kvs"
    by (rule eq)
  show "\<forall>(k, v) \<in> set (take ?n kvs).
         get_fix \<lparr>param_fixId = k, accept = ac, format = fm\<rparr>
           \<lparr>fixes_map = inserts [] kvs, sent = s\<rparr>
           = JsonError 404 (str ''Fix not found or expired'') None"
    unfolding eq using evicted by (auto simp: get_fix_def map_get_def)
  show "\<forall>k. k \<notin> fst ` set kvs \<longrightarrow>
         get_fix \<lparr>param_fixId = k, accept = ac, format = fm\<rparr>
           \<lparr>fixes_map = inserts [] kvs, sent = s\<rparr>
           = JsonError 404 (str ''Fix not found or expired'') None"
    unfolding eq using unknown by (auto simp: get_fix_def map_get_def)
  show "\<forall>(k, v) \<in> set (drop ?n kvs).
         get_fix \<lparr>param_fixId = k, accept = None, format = None\<rparr>
           \<lparr>fixes_map = inserts [] kvs, sent = s\<rparr> = JsonResult v \<and>
         get_fix \<lparr>param_fixId = k, accept = Some (str ''text/plain''), format = fm\<rparr>
           \<lparr>fixes_map = inserts [] kvs, sent = s\<rparr> = PlainText (fixScript v)"
    unfolding eq using kept by (auto simp: get_fix_def map_get_def)
qed

lemma overfull_distinct: "distinct (map fst overfull)"
  by (simp add: overfull_def distinct_map inj_on_def comp_def)

theorem store_keeps_last_thousand_witness:
  "distinct (map fst overfull) \<and>
   length overfull = 1001 \<and>
   inserts [] overfull = drop 1 overfull \<and>
   length (inserts [] overfull) \<le> 1000"
proof -
  have l: "length overfull = 1001"
    by (simp add: overfull_def)
  from store_keeps_last_thousand [of overfull _ _ "[]"] overfull_distinct
  have "inserts [] overfull = drop (length overfull - 1000) overfull"
    and "length (inserts [] overfull) \<le> 1000"
    by blast+
  with l overfull_distinct show ?thesis by simp
qed



end
